theory Spec2Isabelle
  imports Main
begin

chapter \<open>apko: SPDX provenance generator and build pipeline\<close>

text \<open>
  A shallow embedding of \<^verbatim>\<open>pkg/sbom/generator/spdx/spdx.go\<close> and
  \<^verbatim>\<open>pkg/build/build_implementation.go\<close>. Go strings are byte sequences, so
  they are modelled as \<^typ>\<open>string\<close>, each \<^typ>\<open>char\<close> being one byte.
\<close>

section \<open>Identifier sanitizing (\<^verbatim>\<open>stringToIdentifier\<close>)\<close>

subsection \<open>The Go runtime pieces the function calls\<close>

type_synonym rune = nat

text \<open>\<^verbatim>\<open>utf8.RuneError\<close>, U+FFFD.\<close>

definition RuneError :: rune where
  "RuneError = 65533"

text \<open>
  The conversion \<^verbatim>\<open>string(s[i])\<close> of a byte: Go converts an integer to the UTF-8
  encoding of the code point with that value, so a byte below 128 gives one byte and a
  byte from 128 to 255 gives the two bytes \<^verbatim>\<open>0xC0 | b>>6\<close>, \<^verbatim>\<open>0x80 | b&0x3F\<close>.
\<close>

definition stringOfByte :: "char \<Rightarrow> string" where
  "stringOfByte b =
     (let n = (of_char b :: nat)
      in if n < 128 then [b]
         else [char_of (192 + n div 64), char_of (128 + n mod 64)])"

definition inRange :: "nat \<Rightarrow> nat \<Rightarrow> char \<Rightarrow> bool" where
  "inRange lo hi c = (lo \<le> of_char c \<and> (of_char c :: nat) \<le> hi)"

definition contBits :: "char \<Rightarrow> nat" where
  "contBits c = (of_char c :: nat) mod 64"

text \<open>
  \<^verbatim>\<open>utf8.DecodeRuneInString\<close>: the first rune of the string and its width in bytes;
  \<^verbatim>\<open>(RuneError, 0)\<close> on the empty string and \<^verbatim>\<open>(RuneError, 1)\<close> on an invalid or
  truncated encoding. The accepted ranges of the second byte are those of the standard
  library's table (no overlong forms, no surrogates, nothing above U+10FFFF).
\<close>

fun DecodeRuneInString :: "string \<Rightarrow> rune \<times> nat" where
  "DecodeRuneInString [] = (RuneError, 0)"
| "DecodeRuneInString (c0 # s) =
     (let x = (of_char c0 :: nat)
      in if x < 128 then (x, 1)
         else if 194 \<le> x \<and> x \<le> 223 then
           (case s of
              c1 # _ \<Rightarrow>
                if inRange 128 191 c1 then ((x mod 32) * 64 + contBits c1, 2)
                else (RuneError, 1)
            | _ \<Rightarrow> (RuneError, 1))
         else if 224 \<le> x \<and> x \<le> 239 then
           (case s of
              c1 # c2 # _ \<Rightarrow>
                if inRange (if x = 224 then 160 else 128) (if x = 237 then 159 else 191) c1
                   \<and> inRange 128 191 c2
                then ((x mod 16) * 4096 + contBits c1 * 64 + contBits c2, 3)
                else (RuneError, 1)
            | _ \<Rightarrow> (RuneError, 1))
         else if 240 \<le> x \<and> x \<le> 244 then
           (case s of
              c1 # c2 # c3 # _ \<Rightarrow>
                if inRange (if x = 240 then 144 else 128) (if x = 244 then 143 else 191) c1
                   \<and> inRange 128 191 c2 \<and> inRange 128 191 c3
                then ((x mod 8) * 262144 + contBits c1 * 4096 + contBits c2 * 64
                      + contBits c3, 4)
                else (RuneError, 1)
            | _ \<Rightarrow> (RuneError, 1))
         else (RuneError, 1))"

text \<open>\<^verbatim>\<open>%d\<close> of a non-negative integer: its decimal digits.\<close>

fun fmt_d :: "nat \<Rightarrow> string" where
  "fmt_d n = (if n < 10 then [char_of (48 + n)]
              else fmt_d (n div 10) @ [char_of (48 + n mod 10)])"

declare fmt_d.simps [simp del]

subsection \<open>The pattern \<^verbatim>\<open>validIDCharsRe\<close>\<close>

text \<open>
  \<^verbatim>\<open>regexp.MustCompile(`[^a-zA-Z0-9-.]+`)\<close>. The class that is negated holds the
  runes a to z, A to Z, 0 to 9, the hyphen and the dot (after the range 0-9 the hyphen
  is a literal).
\<close>

definition validIDChar :: "rune \<Rightarrow> bool" where
  "validIDChar r =
     ((97 \<le> r \<and> r \<le> 122) \<or> (65 \<le> r \<and> r \<le> 90) \<or> (48 \<le> r \<and> r \<le> 57)
      \<or> r = 45 \<or> r = 46)"

text \<open>
  The length in bytes of the match of the pattern at the start of a string, 0 when there
  is none. The engine reads the input rune by rune with the decoder above (an invalid
  byte reads as \<^verbatim>\<open>RuneError\<close> of width 1, which the negated class accepts) and the
  repetition is greedy.
\<close>

fun matchLen :: "string \<Rightarrow> nat" where
  "matchLen [] = 0"
| "matchLen (c # s) =
     (case DecodeRuneInString (c # s) of
        (r, w) \<Rightarrow> if validIDChar r then 0 else w + matchLen (drop (w - 1) s))"

text \<open>
  \<^verbatim>\<open>validIDCharsRe.ReplaceAllStringFunc(in, repl)\<close>: every leftmost, non-overlapping
  match is replaced by \<^verbatim>\<open>repl\<close> of the matched text, the text between matches is
  copied. Where no match starts the next rune is in the class, hence one byte.
\<close>

fun ReplaceAllStringFunc :: "(string \<Rightarrow> string) \<Rightarrow> string \<Rightarrow> string" where
  "ReplaceAllStringFunc repl [] = []"
| "ReplaceAllStringFunc repl (c # s) =
     (let n = matchLen (c # s)
      in if n = 0 then c # ReplaceAllStringFunc repl s
         else repl (take n (c # s)) @ ReplaceAllStringFunc repl (drop (n - 1) s))"

subsection \<open>\<^verbatim>\<open>stringToIdentifier\<close>\<close>

text \<open>
  The function literal passed to \<^verbatim>\<open>ReplaceAllStringFunc\<close>: the loop over the bytes
  of the matched text, \<^verbatim>\<open>r\<close> being the accumulator.
\<close>

definition escapeRun :: "string \<Rightarrow> string" where
  "escapeRun s =
     foldl (\<lambda>r b. case DecodeRuneInString (stringOfByte b) of
                     (uc, _) \<Rightarrow> r @ ''C'' @ fmt_d uc)
       [] s"

definition stringToIdentifier :: "string \<Rightarrow> string" where
  "stringToIdentifier inp = ReplaceAllStringFunc escapeRun inp"

text \<open>
  Two notions used to state properties of the result: a byte that the pattern leaves
  alone, and what becomes of a single byte.
\<close>

definition validIDByte :: "char \<Rightarrow> bool" where
  "validIDByte c = validIDChar (of_char c)"

definition escapeByte :: "char \<Rightarrow> string" where
  "escapeByte b = (if validIDByte b then [b] else ''C'' @ fmt_d (of_char b))"

text \<open>The characters an SPDX identifier may hold, written out.\<close>

definition allowedChars :: string where
  "allowedChars = ''abcdefghijklmnopqrstuvwxyzABCDEFGHIJKLMNOPQRSTUVWXYZ0123456789.-''"

section \<open>The SPDX generator (\<^verbatim>\<open>spdx.go\<close>)\<close>

subsection \<open>Errors\<close>

text \<open>
  A Go error is one that a collaborator produced, a package-level sentinel value
  (compared by identity, so it has a constructor of its own), or
  \<^verbatim>\<open>fmt.Errorf("msg: %w", err)\<close>, which wraps \<^verbatim>\<open>err\<close> under a message.
\<close>

datatype error = Error string | Sentinel string | Errorf string error

subsection \<open>The document types\<close>

record Checksum =
  Algorithm :: string
  Value :: string

record ExternalRef =
  Category :: string
  Locator :: string
  RefType :: string

record Package =
  ID :: string
  Name :: string
  Version :: string
  FilesAnalyzed :: bool
  LicenseConcluded :: string
  LicenseDeclared :: string
  Description :: string
  DownloadLocation :: string
  Originator :: string
  SourceInfo :: string
  CopyrightText :: string
  Checksums :: "Checksum list"
  ExternalRefs :: "ExternalRef list"

record Relationship =
  Element :: string
  Type :: string
  Related :: string

record CreationInfo =
  Created :: string
  Creators :: "string list"
  LicenseListVersion :: string

record Document =
  DocID :: string
  DocName :: string
  DocVersion :: string
  DocCreationInfo :: CreationInfo
  DataLicense :: string
  Namespace :: string
  DocumentDescribes :: "string list"
  Packages :: "Package list"
  Relationships :: "Relationship list"

subsection \<open>The input: \<^verbatim>\<open>options.Options\<close> and \<^verbatim>\<open>repository.Package\<close>\<close>

text \<open>
  The declarations of the generator's options are not among the sources at hand; the
  records hold the fields that \<^verbatim>\<open>spdx.go\<close> reads. A time is a number of seconds, an
  architecture is its name.
\<close>

record ImageInfo =
  ImageName :: string
  LayerDigest :: string
  ImageDigest :: string
  Reference :: string
  Tag :: string
  Repository :: string
  Arch :: string
  SourceDateEpoch :: int

record OSInfo =
  OSID :: string
  OSVersion :: string

record RepoPackage =
  PkgName :: string
  PkgVersion :: string
  PkgLicense :: string
  PkgDescription :: string
  PkgURL :: string
  PkgMaintainer :: string
  PkgChecksum :: string

record Options =
  OptImageInfo :: ImageInfo
  OptOS :: OSInfo
  OptPackages :: "RepoPackage list"

subsection \<open>Collaborators\<close>

text \<open>
  What the generator calls outside this file, as parameters: the tool's version, the
  RFC 3339 rendering of a time, \<^verbatim>\<open>purl.NewPackageURL(...).String()\<close> (type, namespace,
  name, version, qualifier map, subpath), the three renderings of an architecture, and
  the two operations on the output file, each giving the error it fails with, if any.
\<close>

record ext =
  GitVersion :: string
  FormatRFC3339 :: "int \<Rightarrow> string"
  PackageURL :: "string \<Rightarrow> string \<Rightarrow> string \<Rightarrow> string \<Rightarrow> (string \<rightharpoonup> string) \<Rightarrow> string \<Rightarrow> string"
  ArchString :: "string \<Rightarrow> string"
  ToOCIArchitecture :: "string \<Rightarrow> string"
  ToAPK :: "string \<Rightarrow> string"
  osCreate :: "string \<Rightarrow> error option"
  jsonEncode :: "Document \<Rightarrow> error option"

definition NOASSERTION :: string where
  "NOASSERTION = ''NOASSERTION''"

text \<open>\<^verbatim>\<open>strings.TrimPrefix\<close> and \<^verbatim>\<open>strings.Contains\<close> (of a one-byte string).\<close>

definition TrimPrefix :: "string \<Rightarrow> string \<Rightarrow> string" where
  "TrimPrefix s p = (if take (length p) s = p then drop (length p) s else s)"

definition ContainsByte :: "string \<Rightarrow> char \<Rightarrow> bool" where
  "ContainsByte s c = (c \<in> set s)"

text \<open>\<^verbatim>\<open>%x\<close> of a byte slice: two lower-case hexadecimal digits for each byte.\<close>

definition hexDigit :: "nat \<Rightarrow> char" where
  "hexDigit n = (if n < 10 then char_of (48 + n) else char_of (87 + n))"

definition fmt_x :: "string \<Rightarrow> string" where
  "fmt_x bs = concat (map (\<lambda>b. [hexDigit (of_char b div 16), hexDigit (of_char b mod 16)]) bs)"

subsection \<open>The three kinds of node\<close>

definition imagePackage :: "ext \<Rightarrow> Options \<Rightarrow> Package" where
  "imagePackage E opts =
     (let ii = OptImageInfo opts;
          mmMain = Map.empty;
          mmMain = (if Tag ii \<noteq> '''' then mmMain(''tag'' \<mapsto> Tag ii) else mmMain);
          mmMain = (if Repository ii \<noteq> ''''
                    then mmMain(''repository_url'' \<mapsto> Repository ii) else mmMain);
          mmMain = (if ArchString E (Arch ii) \<noteq> ''''
                    then mmMain(''arch'' \<mapsto> ToOCIArchitecture E (Arch ii)) else mmMain)
      in \<lparr> ID = stringToIdentifier (''SPDXRef-Package-'' @ ImageDigest ii),
           Name = ImageName ii @ ''@'' @ ImageDigest ii,
           Version = '''',
           FilesAnalyzed = False,
           LicenseConcluded = NOASSERTION,
           LicenseDeclared = NOASSERTION,
           Description = ''apko container image'',
           DownloadLocation = NOASSERTION,
           Originator = '''',
           SourceInfo = '''',
           CopyrightText = NOASSERTION,
           Checksums =
             [\<lparr> Algorithm = ''SHA256'',
                Value = TrimPrefix (ImageDigest ii) ''sha256:'' \<rparr>],
           ExternalRefs =
             [\<lparr> Category = ''PACKAGE_MANAGER'',
                Locator = PackageURL E ''oci'' '''' (ImageName ii) (ImageDigest ii) mmMain '''',
                RefType = ''purl'' \<rparr>] \<rparr>)"

text \<open>\<^verbatim>\<open>apkPackage\<close> returns a package and an error that is always \<^verbatim>\<open>nil\<close>.\<close>

definition apkPackage :: "ext \<Rightarrow> Options \<Rightarrow> RepoPackage \<Rightarrow> error + Package" where
  "apkPackage E opts pkg =
     Inr \<lparr> ID = stringToIdentifier (''SPDXRef-Package-'' @ PkgName pkg @ ''-'' @ PkgVersion pkg),
           Name = PkgName pkg,
           Version = PkgVersion pkg,
           FilesAnalyzed = False,
           LicenseConcluded = PkgLicense pkg,
           LicenseDeclared = NOASSERTION,
           Description = PkgDescription pkg,
           DownloadLocation = PkgURL pkg,
           Originator = PkgMaintainer pkg,
           SourceInfo = ''Package info from apk database'',
           CopyrightText = NOASSERTION,
           Checksums = [\<lparr> Algorithm = ''SHA1'', Value = fmt_x (PkgChecksum pkg) \<rparr>],
           ExternalRefs =
             [\<lparr> Category = ''PACKAGE_MANAGER'',
                Locator = PackageURL E ''apk'' (OSID (OptOS opts)) (PkgName pkg) (PkgVersion pkg)
                            [''arch'' \<mapsto> ToAPK E (Arch (OptImageInfo opts))] '''',
                RefType = ''purl'' \<rparr>] \<rparr>"

text \<open>\<^verbatim>\<open>layerPackage\<close>, likewise with an error that is always \<^verbatim>\<open>nil\<close>.\<close>

definition layerPackage :: "ext \<Rightarrow> Options \<Rightarrow> error + Package" where
  "layerPackage E opts =
     (let ii = OptImageInfo opts;
          layerPackageName = LayerDigest ii;
          layerPackageName = (if ImageName ii \<noteq> '''' then ImageName ii @ ''@'' @ LayerDigest ii
                              else layerPackageName);
          layerPackageName =
            (if Reference ii \<noteq> '''' then
               (let x = '''';
                    x = (if \<not> ContainsByte (Reference ii) (CHR ''/'')
                         then ''index.docker.io/library/'' else x)
                in ''SPDXRef-'' @ x @ Reference ii)
             else layerPackageName);
          mainPkgID = stringToIdentifier layerPackageName;
          mmMain = Map.empty;
          mmMain = (if Tag ii \<noteq> '''' then mmMain(''tag'' \<mapsto> Tag ii) else mmMain);
          mmMain = (if Repository ii \<noteq> ''''
                    then mmMain(''repository_url'' \<mapsto> Repository ii) else mmMain);
          mmMain = (if ArchString E (Arch ii) \<noteq> ''''
                    then mmMain(''arch'' \<mapsto> ToOCIArchitecture E (Arch ii)) else mmMain)
      in Inr \<lparr> ID = ''SPDXRef-Package-'' @ mainPkgID,
               Name = layerPackageName,
               Version = OSVersion (OptOS opts),
               FilesAnalyzed = False,
               LicenseConcluded = NOASSERTION,
               LicenseDeclared = NOASSERTION,
               Description = ''apko operating system layer'',
               DownloadLocation = NOASSERTION,
               Originator = '''',
               SourceInfo = '''',
               CopyrightText = NOASSERTION,
               Checksums = [],
               ExternalRefs =
                 [\<lparr> Category = ''PACKAGE_MANAGER'',
                    Locator = PackageURL E ''oci'' '''' (ImageName ii) (LayerDigest ii) mmMain '''',
                    RefType = ''purl'' \<rparr>] \<rparr>)"

subsection \<open>\<^verbatim>\<open>Generate\<close>\<close>

text \<open>The loop over \<^verbatim>\<open>opts.Packages\<close>, the document being the state.\<close>

fun addPackages :: "ext \<Rightarrow> Options \<Rightarrow> Package \<Rightarrow> RepoPackage list \<Rightarrow> Document \<Rightarrow> error + Document"
  where
  "addPackages E opts layerPkg [] doc = Inr doc"
| "addPackages E opts layerPkg (pkg # pkgs) doc =
     (case apkPackage E opts pkg of
        Inl err \<Rightarrow> Inl (Errorf ''generating apk package'' err)
      | Inr p \<Rightarrow>
          (let p = p\<lparr> ID := stringToIdentifier
                      (''SPDXRef-Package-'' @ ID layerPkg @ ''-'' @ PkgName pkg @ ''-''
                       @ PkgVersion pkg) \<rparr>;
               doc = doc\<lparr> Packages := Packages doc @ [p] \<rparr>;
               doc = doc\<lparr> Relationships := Relationships doc @
                       [\<lparr> Element = ID layerPkg, Type = ''CONTAINS'', Related = ID p \<rparr>] \<rparr>
           in addPackages E opts layerPkg pkgs doc))"

text \<open>
  \<^verbatim>\<open>Generate\<close> returns an error or \<^verbatim>\<open>nil\<close>; on \<^verbatim>\<open>nil\<close> the document has been
  encoded into the file at \<^verbatim>\<open>path\<close>, and the model returns that document.
\<close>

definition Generate :: "ext \<Rightarrow> Options \<Rightarrow> string \<Rightarrow> error + Document" where
  "Generate E opts path =
     (let documentName = ''sbom'';
          documentName = (if LayerDigest (OptImageInfo opts) \<noteq> ''''
                          then documentName @ ''-'' @ LayerDigest (OptImageInfo opts)
                          else documentName);
          doc = \<lparr> DocID = ''SPDXRef-DOCUMENT'',
                  DocName = documentName,
                  DocVersion = ''SPDX-2.2'',
                  DocCreationInfo =
                    \<lparr> Created = FormatRFC3339 E (SourceDateEpoch (OptImageInfo opts)),
                      Creators = [''Tool: apko ('' @ GitVersion E @ '')'',
                                  ''Organization: Chainguard, Inc''],
                      LicenseListVersion = ''3.16'' \<rparr>,
                  DataLicense = ''CC0-1.0'',
                  Namespace = ''https://spdx.org/spdxdocs/apko/'',
                  DocumentDescribes = [],
                  Packages = [],
                  Relationships = [] \<rparr>
      in case layerPackage E opts of
           Inl err \<Rightarrow> Inl (Errorf ''generating layer spdx package'' err)
         | Inr layerPkg \<Rightarrow>
             (let doc = doc\<lparr> DocumentDescribes := [ID layerPkg] \<rparr>;
                  doc = (if ImageDigest (OptImageInfo opts) \<noteq> '''' then
                           (let imagePkg = imagePackage E opts;
                                doc = doc\<lparr> DocumentDescribes := [ID imagePkg] \<rparr>;
                                doc = doc\<lparr> Packages := Packages doc @ [imagePkg] \<rparr>
                            in doc\<lparr> Relationships := Relationships doc @
                                      [\<lparr> Element = ID imagePkg, Type = ''CONTAINS'',
                                         Related = ID layerPkg \<rparr>] \<rparr>)
                         else doc);
                  doc = doc\<lparr> Packages := Packages doc @ [layerPkg] \<rparr>
              in case addPackages E opts layerPkg (OptPackages opts) doc of
                   Inl err \<Rightarrow> Inl err
                 | Inr doc \<Rightarrow>
                     (case osCreate E path of
                        Some err \<Rightarrow>
                          Inl (Errorf (''opening SBOM path '' @ path @ '' for writing'') err)
                      | None \<Rightarrow>
                          (case jsonEncode E doc of
                             Some err \<Rightarrow> Inl (Errorf ''encoding spdx sbom'' err)
                           | None \<Rightarrow> Inr doc))))"

text \<open>
  For stating results: the node that one pass of the loop appends for \<^verbatim>\<open>pkg\<close>, and the
  relationship it appends with it.
\<close>

definition apkNode :: "ext \<Rightarrow> Options \<Rightarrow> Package \<Rightarrow> RepoPackage \<Rightarrow> Package" where
  "apkNode E opts layerPkg pkg =
     (projr (apkPackage E opts pkg))
       \<lparr> ID := stringToIdentifier
                (''SPDXRef-Package-'' @ ID layerPkg @ ''-'' @ PkgName pkg @ ''-''
                 @ PkgVersion pkg) \<rparr>"

definition contains :: "Package \<Rightarrow> Package \<Rightarrow> Relationship" where
  "contains a b = \<lparr> Element = ID a, Type = ''CONTAINS'', Related = ID b \<rparr>"

section \<open>The build implementation (\<^verbatim>\<open>build_implementation.go\<close>)\<close>

subsection \<open>State\<close>

text \<open>
  The working tree \<^verbatim>\<open>bc.fs\<close> maps a path to the content of the entry there. The build
  options \<^verbatim>\<open>bc.o\<close> hold the fields that the file reads or writes. The logger is the list
  of the entries written to it.
\<close>

type_synonym tree = "string \<rightharpoonup> string"

record BuildOptions =
  Tags :: "string list"
  TarballPath :: string
  WorkDir :: string
  BuildSourceDateEpoch :: int

record ImageConfiguration =
  EntrypointServices :: "(string \<times> string) list"

datatype logEntry = Infof string string | Warnf string error

record Context =
  bc_o :: BuildOptions
  bc_ic :: ImageConfiguration
  bc_fs :: tree
  bc_log :: "logEntry list"

subsection \<open>Collaborators\<close>

text \<open>
  Modelled from the spec: the functions that \<^verbatim>\<open>buildImage\<close> and \<^verbatim>\<open>BuildTarball\<close>
  call and whose bodies are not among the sources at hand (\<^verbatim>\<open>mutateAccounts\<close>,
  \<^verbatim>\<open>mutatePaths\<close>, the writer of the OS-release file, \<^verbatim>\<open>installBusyboxLinks\<close>,
  \<^verbatim>\<open>installLdconfigLinks\<close>, \<^verbatim>\<open>installCharDevices\<close>, \<^verbatim>\<open>AdditionalTags\<close>, the
  supervision-tree writer, the options' \<^verbatim>\<open>TempDir\<close> and \<^verbatim>\<open>TarballFileName\<close>) and
  the libraries (the package installer, the tar writer, gzip, \<^verbatim>\<open>filepath.Join\<close>) are
  parameters. As the specification describes them, a step acts on the tree and may
  fail: it returns the tree as it left it and the error, if any. \<^verbatim>\<open>FixateWorld\<close> is
  given the address of the source date epoch and is taken to read it. The tar writer
  returns the bytes it wrote; it is given the fixed timestamp and the tree, as in the
  source.
\<close>

record benv =
  FixateWorld :: "tree \<Rightarrow> int \<Rightarrow> tree \<times> error option"
  AdditionalTags :: "tree \<Rightarrow> BuildOptions \<Rightarrow> error + string list option"
  mutateAccounts :: "tree \<Rightarrow> BuildOptions \<Rightarrow> ImageConfiguration \<Rightarrow> tree \<times> error option"
  mutatePaths :: "tree \<Rightarrow> BuildOptions \<Rightarrow> ImageConfiguration \<Rightarrow> tree \<times> error option"
  writeOSRelease :: "tree \<Rightarrow> BuildOptions \<Rightarrow> ImageConfiguration \<Rightarrow> tree \<times> error option"
  WriteSupervisionTree :: "tree \<Rightarrow> (string \<times> string) list \<Rightarrow> tree \<times> error option"
  GetInstalled :: "tree \<Rightarrow> error + string list"
  installBusyboxLinks :: "tree \<Rightarrow> string list \<Rightarrow> tree \<times> error option"
  installLdconfigLinks :: "tree \<Rightarrow> tree \<times> error option"
  installCharDevices :: "tree \<Rightarrow> tree \<times> error option"
  TempDir :: "BuildOptions \<Rightarrow> string"
  TarballFileName :: "BuildOptions \<Rightarrow> string"
  filepathJoin :: "string \<Rightarrow> string \<Rightarrow> string"
  TarNewContext :: "int \<Rightarrow> error option"
  WriteTar :: "int \<Rightarrow> tree \<Rightarrow> string \<times> error option"
  gzipBytes :: "string \<Rightarrow> string"

text \<open>
  The machine a build runs on: its files, its clock, and whether creating the file of a
  given name, closing the compressor, flushing the buffer and reading the file's size
  fail there.
\<close>

record Host =
  files :: "string \<rightharpoonup> string"
  clock :: int
  createErr :: "string \<Rightarrow> error option"
  closeErr :: "error option"
  flushErr :: "error option"
  statErr :: "error option"

subsection \<open>\<^verbatim>\<open>errors.Is\<close> and the sentinel\<close>

fun errorsIs :: "error \<Rightarrow> error \<Rightarrow> bool" where
  "errorsIs (Errorf m e) target = (Errorf m e = target \<or> errorsIs e target)"
| "errorsIs e target = (e = target)"

definition ErrOSReleaseAlreadyPresent :: error where
  "ErrOSReleaseAlreadyPresent = Sentinel ''ErrOSReleaseAlreadyPresent''"

definition osReleasePath :: string where
  "osReleasePath = ''/etc/os-release''"

text \<open>
  Modelled from the spec: \<^verbatim>\<open>GenerateOSRelease\<close>, whose body is not among the sources
  at hand. "If the target file already exists, this is a non-fatal condition: log a
  warning and continue without overwriting": on a tree that has the file it returns the
  sentinel and leaves the tree as it is; otherwise it writes the file, which may fail.
\<close>

definition GenerateOSRelease ::
  "benv \<Rightarrow> tree \<Rightarrow> BuildOptions \<Rightarrow> ImageConfiguration \<Rightarrow> tree \<times> error option" where
  "GenerateOSRelease B fsys opt ic =
     (if osReleasePath \<in> dom fsys then (fsys, Some ErrOSReleaseAlreadyPresent)
      else writeOSRelease B fsys opt ic)"

subsection \<open>\<^verbatim>\<open>additionalTags\<close>\<close>

text \<open>
  The options are passed by value to \<^verbatim>\<open>AdditionalTags\<close> and updated through the
  pointer afterwards; \<^verbatim>\<open>None\<close> stands for the \<^verbatim>\<open>nil\<close> slice.
\<close>

definition additionalTags :: "benv \<Rightarrow> tree \<Rightarrow> BuildOptions \<Rightarrow> BuildOptions \<times> error option" where
  "additionalTags B fsys opt =
     (case AdditionalTags B fsys opt of
        Inl err \<Rightarrow> (opt, Some err)
      | Inr None \<Rightarrow> (opt, None)
      | Inr (Some at) \<Rightarrow> (opt\<lparr> Tags := Tags opt @ at \<rparr>, None))"

subsection \<open>\<^verbatim>\<open>buildImage\<close>\<close>

text \<open>
  Each \<^verbatim>\<open>if err := ...; err != nil { return ... }\<close> of \<^verbatim>\<open>buildImage\<close> is a step: it
  takes the build context and returns it as it left it, with the error that
  \<^verbatim>\<open>buildImage\<close> returns there, if any. The steps run in order until one returns an
  error.
\<close>

type_synonym step = "Context \<Rightarrow> Context \<times> error option"

fun runSteps :: "step list \<Rightarrow> Context \<Rightarrow> Context \<times> error option" where
  "runSteps [] bc = (bc, None)"
| "runSteps (s # ss) bc =
     (case s bc of
        (bc', Some err) \<Rightarrow> (bc', Some err)
      | (bc', None) \<Rightarrow> runSteps ss bc')"

definition stepFixateWorld :: "benv \<Rightarrow> step" where
  "stepFixateWorld B bc =
     (case FixateWorld B (bc_fs bc) (BuildSourceDateEpoch (bc_o bc)) of
        (fs', err) \<Rightarrow> (bc\<lparr> bc_fs := fs' \<rparr>, map_option (Errorf ''installing apk packages'') err))"

definition stepAdditionalTags :: "benv \<Rightarrow> step" where
  "stepAdditionalTags B bc =
     (case additionalTags B (bc_fs bc) (bc_o bc) of
        (o', err) \<Rightarrow> (bc\<lparr> bc_o := o' \<rparr>, map_option (Errorf ''adding additional tags'') err))"

definition stepMutateAccounts :: "benv \<Rightarrow> step" where
  "stepMutateAccounts B bc =
     (case mutateAccounts B (bc_fs bc) (bc_o bc) (bc_ic bc) of
        (fs', err) \<Rightarrow> (bc\<lparr> bc_fs := fs' \<rparr>, map_option (Errorf ''failed to mutate accounts'') err))"

definition stepMutatePaths :: "benv \<Rightarrow> step" where
  "stepMutatePaths B bc =
     (case mutatePaths B (bc_fs bc) (bc_o bc) (bc_ic bc) of
        (fs', err) \<Rightarrow> (bc\<lparr> bc_fs := fs' \<rparr>, map_option (Errorf ''failed to mutate paths'') err))"

definition stepGenerateOSRelease :: "benv \<Rightarrow> step" where
  "stepGenerateOSRelease B bc =
     (case GenerateOSRelease B (bc_fs bc) (bc_o bc) (bc_ic bc) of
        (fs', None) \<Rightarrow> (bc\<lparr> bc_fs := fs' \<rparr>, None)
      | (fs', Some err) \<Rightarrow>
          if errorsIs err ErrOSReleaseAlreadyPresent
          then (bc\<lparr> bc_fs := fs',
                    bc_log := bc_log bc @ [Warnf ''did not generate /etc/os-release: %v'' err] \<rparr>,
                None)
          else (bc\<lparr> bc_fs := fs' \<rparr>, Some (Errorf ''failed to generate /etc/os-release'' err)))"

definition stepWriteSupervisionTree :: "benv \<Rightarrow> step" where
  "stepWriteSupervisionTree B bc =
     (case WriteSupervisionTree B (bc_fs bc) (EntrypointServices (bc_ic bc)) of
        (fs', err) \<Rightarrow>
          (bc\<lparr> bc_fs := fs' \<rparr>, map_option (Errorf ''failed to write supervision tree'') err))"

text \<open>The error of \<^verbatim>\<open>installBusyboxLinks\<close> and of the two steps after it is returned as it is.\<close>

definition stepBusyboxLinks :: "benv \<Rightarrow> step" where
  "stepBusyboxLinks B bc =
     (case GetInstalled B (bc_fs bc) of
        Inl err \<Rightarrow> (bc, Some (Errorf ''getting installed packages'' err))
      | Inr installed \<Rightarrow>
          (case installBusyboxLinks B (bc_fs bc) installed of
             (fs', err) \<Rightarrow> (bc\<lparr> bc_fs := fs' \<rparr>, err)))"

definition stepLdconfigLinks :: "benv \<Rightarrow> step" where
  "stepLdconfigLinks B bc =
     (case installLdconfigLinks B (bc_fs bc) of (fs', err) \<Rightarrow> (bc\<lparr> bc_fs := fs' \<rparr>, err))"

definition stepCharDevices :: "benv \<Rightarrow> step" where
  "stepCharDevices B bc =
     (case installCharDevices B (bc_fs bc) of (fs', err) \<Rightarrow> (bc\<lparr> bc_fs := fs' \<rparr>, err))"

definition buildSteps :: "benv \<Rightarrow> step list" where
  "buildSteps B =
     [stepFixateWorld B, stepAdditionalTags B, stepMutateAccounts B, stepMutatePaths B,
      stepGenerateOSRelease B, stepWriteSupervisionTree B, stepBusyboxLinks B,
      stepLdconfigLinks B, stepCharDevices B]"

definition buildImage :: "benv \<Rightarrow> Context \<Rightarrow> Context \<times> error option" where
  "buildImage B bc =
     (case runSteps (buildSteps B) bc of
        (bc', Some err) \<Rightarrow> (bc', Some err)
      | (bc', None) \<Rightarrow>
          (bc'\<lparr> bc_log := bc_log bc' @
                   [Infof ''finished building filesystem in %s'' (WorkDir (bc_o bc'))] \<rparr>,
           None))"


subsection \<open>\<^verbatim>\<open>BuildTarball\<close>\<close>

text \<open>
  A \<^verbatim>\<open>hash.Hash\<close> is represented by the bytes written to it. The tar stream goes to
  the first hash and to the compressor, the compressor's output goes to the second hash
  and, through the buffer, to the file. On success the function returns the file's name,
  the two hashes and the file's size; the model adds the host with the file written. On
  an error the state of the host is not returned.
\<close>

record TarballResult =
  outName :: string
  diffid :: string
  digest :: string
  size :: int
  hostAfter :: Host

definition BuildTarball :: "benv \<Rightarrow> Host \<Rightarrow> Context \<Rightarrow> Context \<times> (error + TarballResult)" where
  "BuildTarball B H bc =
     (let name = (if TarballPath (bc_o bc) \<noteq> '''' then TarballPath (bc_o bc)
                  else filepathJoin B (TempDir B (bc_o bc)) (TarballFileName B (bc_o bc)))
      in case createErr H name of
           Some err \<Rightarrow>
             (bc, Inl (Errorf ''opening the build context tarball path failed'' err))
         | None \<Rightarrow>
             (let bc = bc\<lparr> bc_o := (bc_o bc)\<lparr> TarballPath := name \<rparr> \<rparr>
              in case TarNewContext B (BuildSourceDateEpoch (bc_o bc)) of
                   Some err \<Rightarrow>
                     (bc, Inl (Errorf ''failed to construct tarball build context'' err))
                 | None \<Rightarrow>
                     (case WriteTar B (BuildSourceDateEpoch (bc_o bc)) (bc_fs bc) of
                        (tar, Some err) \<Rightarrow>
                          (bc, Inl (Errorf ''failed to generate tarball for image'' err))
                      | (tar, None) \<Rightarrow>
                          (case closeErr H of
                             Some err \<Rightarrow> (bc, Inl (Errorf ''closing gzip writer'' err))
                           | None \<Rightarrow>
                               (case flushErr H of
                                  Some err \<Rightarrow> (bc, Inl (Errorf (''flushing '' @ name) err))
                                | None \<Rightarrow>
                                    (case statErr H of
                                       Some err \<Rightarrow>
                                         (bc, Inl (Errorf (''stat('' @ name @ '')'') err))
                                     | None \<Rightarrow>
                                         (bc\<lparr> bc_log := bc_log bc @
                                                 [Infof ''built image layer tarball as %s'' name] \<rparr>,
                                          Inr \<lparr> outName = name,
                                                diffid = tar,
                                                digest = gzipBytes B tar,
                                                size = int (length (gzipBytes B tar)),
                                                hostAfter =
                                                  H\<lparr> files := (files H)(name \<mapsto> gzipBytes B tar) \<rparr>
                                              \<rparr>)))))))"

text \<open>
  For stating what may change in the options: \<^verbatim>\<open>b\<close> is \<^verbatim>\<open>a\<close> with tags appended to
  its tag list and nothing else changed.
\<close>

definition onlyTagsAppended :: "BuildOptions \<Rightarrow> BuildOptions \<Rightarrow> bool" where
  "onlyTagsAppended a b =
     (b = a\<lparr> Tags := Tags b \<rparr> \<and> take (length (Tags a)) (Tags b) = Tags a)"


section \<open>Concrete inputs\<close>

text \<open>
  Inputs at which the theorems below are instantiated: collaborators that always succeed,
  one resolved package, and options for a given image digest and package list.
\<close>

definition exampleExt :: ext where
  "exampleExt =
     \<lparr> GitVersion = ''v0.1.0'',
       FormatRFC3339 = (\<lambda>t. ''1970-01-01T00:00:00Z''),
       PackageURL = (\<lambda>t ns n v q sp. ''pkg:'' @ t @ ''/'' @ n @ ''@'' @ v),
       ArchString = (\<lambda>a. a),
       ToOCIArchitecture = (\<lambda>a. a),
       ToAPK = (\<lambda>a. a),
       osCreate = (\<lambda>p. None),
       jsonEncode = (\<lambda>d. None) \<rparr>"

definition examplePkg :: RepoPackage where
  "examplePkg =
     \<lparr> PkgName = ''busybox'', PkgVersion = ''1.36.0-r0'', PkgLicense = ''GPL-2.0-only'',
       PkgDescription = ''tools'', PkgURL = ''https://busybox.net/'',
       PkgMaintainer = ''nobody'', PkgChecksum = ''ab'' \<rparr>"

definition exampleOptions :: "string \<Rightarrow> RepoPackage list \<Rightarrow> Options" where
  "exampleOptions imageDigest pkgs =
     \<lparr> OptImageInfo =
         \<lparr> ImageName = ''img'', LayerDigest = ''sha256:1f'', ImageDigest = imageDigest,
           Reference = '''', Tag = ''latest'', Repository = '''', Arch = ''amd64'',
           SourceDateEpoch = 0 \<rparr>,
       OptOS = \<lparr> OSID = ''alpine'', OSVersion = ''3.17'' \<rparr>,
       OptPackages = pkgs \<rparr>"

text \<open>
  The reading of the specification's words "algorithm/value split from a combined
  algorithm:hex string", to compare the generator with: the digest is cut at its first
  colon, and the checksum list is the one entry made of the two parts (the name of the
  algorithm compared without regard to case).
\<close>

definition spec_splitDigest :: "string \<Rightarrow> string \<times> string" where
  "spec_splitDigest d =
     (takeWhile (\<lambda>c. c \<noteq> CHR '':'') d, drop 1 (dropWhile (\<lambda>c. c \<noteq> CHR '':'') d))"

definition toUpperByte :: "char \<Rightarrow> char" where
  "toUpperByte c =
     (if 97 \<le> (of_char c :: nat) \<and> (of_char c :: nat) \<le> 122 then char_of ((of_char c :: nat) - 32)
      else c)"

definition spec_checksumsSplitFrom :: "string \<Rightarrow> Checksum list \<Rightarrow> bool" where
  "spec_checksumsSplitFrom d cs =
     (map (\<lambda>c. (map toUpperByte (Algorithm c), Value c)) cs
        = [(map toUpperByte (fst (spec_splitDigest d)), snd (spec_splitDigest d))])"

text \<open>
  A build whose collaborators all succeed, a build context whose tree already has the
  OS-release file and whose tarball path is not set, and a host where no file operation
  fails, with a given clock.
\<close>

definition exampleBenv :: benv where
  "exampleBenv =
     \<lparr> FixateWorld = (\<lambda>t sde. (t(''/lib/apk/db/installed'' \<mapsto> ''busybox''), None)),
       AdditionalTags = (\<lambda>t opt. Inr (Some [''3.17''])),
       mutateAccounts = (\<lambda>t opt ic. (t(''/etc/passwd'' \<mapsto> ''root:x:0:0''), None)),
       mutatePaths = (\<lambda>t opt ic. (t(''/home'' \<mapsto> ''''), None)),
       writeOSRelease = (\<lambda>t opt ic. (t(''/etc/os-release'' \<mapsto> ''ID=apko''), None)),
       WriteSupervisionTree = (\<lambda>t services. (t, None)),
       GetInstalled = (\<lambda>t. Inr [''busybox'']),
       installBusyboxLinks = (\<lambda>t installed. (t(''/bin/sh'' \<mapsto> ''/bin/busybox''), None)),
       installLdconfigLinks = (\<lambda>t. (t, None)),
       installCharDevices = (\<lambda>t. (t(''/dev/null'' \<mapsto> ''''), None)),
       TempDir = (\<lambda>opt. ''/tmp/apko''),
       TarballFileName = (\<lambda>opt. ''layer.tar.gz''),
       filepathJoin = (\<lambda>a b. a @ ''/'' @ b),
       TarNewContext = (\<lambda>sde. None),
       WriteTar = (\<lambda>sde t. (case t ''/etc/os-release'' of Some c \<Rightarrow> ''tar:'' @ c | None \<Rightarrow> ''tar:'',
                              None)),
       gzipBytes = (\<lambda>bs. ''gz:'' @ bs) \<rparr>"

definition exampleContext :: Context where
  "exampleContext =
     \<lparr> bc_o = \<lparr> Tags = [''latest''], TarballPath = '''', WorkDir = ''/work'',
                BuildSourceDateEpoch = 0 \<rparr>,
       bc_ic = \<lparr> EntrypointServices = [] \<rparr>,
       bc_fs = [''/etc/os-release'' \<mapsto> ''ID=custom''],
       bc_log = [] \<rparr>"




section \<open>Properties of the identifier transform\<close>

subsection \<open>Decoding\<close>

lemma mod_shift:
  assumes "q * m \<le> (x::nat)" and "x < q * m + m"
  shows "x mod m = x - q * m"
proof -
  have "x = (x - q * m) + q * m" using assms(1) by simp
  then have "x mod m = ((x - q * m) + q * m) mod m" by simp
  also have "\<dots> = (x - q * m) mod m" by (simp only: mod_mult_self1)
  also have "\<dots> = x - q * m" using assms by (simp add: less_diff_conv2 add.commute)
  finally show ?thesis .
qed

lemma two_byte_ge: "194 \<le> (x::nat) \<Longrightarrow> x \<le> 223 \<Longrightarrow> 128 \<le> x mod 32 * 64 + y"
  using mod_shift[of 6 32 x] by simp

lemma three_byte_ge:
  "224 \<le> (x::nat) \<Longrightarrow> x \<le> 239 \<Longrightarrow> (if x = 224 then 160 else 128) \<le> (a::nat)
   \<Longrightarrow> a \<le> 191 \<Longrightarrow> 128 \<le> x mod 16 * 4096 + (a mod 64 * 64 + y)"
  using mod_shift[of 14 16 x] mod_shift[of 2 64 a] by (simp split: if_splits)

lemma four_byte_ge:
  "240 \<le> (x::nat) \<Longrightarrow> x \<le> 244 \<Longrightarrow> (if x = 240 then 144 else 128) \<le> (a::nat)
   \<Longrightarrow> a \<le> 191 \<Longrightarrow> 128 \<le> x mod 8 * 262144 + (a mod 64 * 4096 + y)"
  using mod_shift[of 30 8 x] mod_shift[of 2 64 a] by (simp split: if_splits)

lemma decode_width:
  "DecodeRuneInString (c # s) = (r, w) \<Longrightarrow> 1 \<le> w \<and> w \<le> Suc (length s)"
  by (auto simp: Let_def split: if_splits list.splits)

lemma decode_ascii:
  "(of_char c :: nat) < 128 \<Longrightarrow> DecodeRuneInString (c # s) = (of_char c, 1)"
  by (simp add: Let_def)

lemma decode_bytes_ge:
  assumes "\<not> (of_char c :: nat) < 128" and "DecodeRuneInString (c # s) = (r, w)"
  shows "\<forall>b \<in> set (take w (c # s)). (128::nat) \<le> of_char b"
  using assms
  by (auto simp: Let_def inRange_def split: if_splits list.splits)

lemma cont_ge_64: "160 \<le> (a::nat) \<Longrightarrow> a \<le> 191 \<Longrightarrow> 128 \<le> a mod 64 * 64 + y"
  using mod_shift[of 2 64 a] by simp

lemma cont_ge_4096: "144 \<le> (a::nat) \<Longrightarrow> a \<le> 191 \<Longrightarrow> 128 \<le> a mod 64 * 4096 + y"
  using mod_shift[of 2 64 a] by simp

lemma decode_rune_ge:
  assumes "\<not> (of_char c :: nat) < 128" and "DecodeRuneInString (c # s) = (r, w)"
  shows "128 \<le> r"
proof -
  let ?x = "of_char c :: nat"
  consider (two) "194 \<le> ?x \<and> ?x \<le> 223" | (three) "224 \<le> ?x \<and> ?x \<le> 239"
    | (four) "240 \<le> ?x \<and> ?x \<le> 244" | (bad) "?x < 194 \<or> 244 < ?x"
    by linarith
  then show ?thesis
  proof cases
    case two
    with assms show ?thesis
      by (auto simp: Let_def RuneError_def intro: two_byte_ge split: if_splits list.splits)
  next
    case three
    with assms show ?thesis
      by (auto simp: Let_def RuneError_def inRange_def contBits_def add.assoc
          intro!: three_byte_ge cont_ge_64 split: if_splits list.splits)
  next
    case four
    with assms show ?thesis
      by (auto simp: Let_def RuneError_def inRange_def contBits_def add.assoc
          intro!: four_byte_ge cont_ge_4096 split: if_splits list.splits)
  next
    case bad
    with assms show ?thesis
      by (auto simp: Let_def RuneError_def split: if_splits)
  qed
qed


text \<open>Decoding the conversion of a byte gives the byte's value back.\<close>

lemma decode_stringOfByte: "fst (DecodeRuneInString (stringOfByte b)) = of_char b"
proof (cases "(of_char b :: nat) < 128")
  case True
  then show ?thesis by (simp add: stringOfByte_def Let_def)
next
  case False
  define n where "n = (of_char b :: nat)"
  have n: "128 \<le> n" "n < 256" using False by (simp_all add: n_def)
  have m: "n mod 64 < 64" by simp
  have d: "n div 64 = 2 \<or> n div 64 = 3"
  proof -
    have "2 \<le> n div 64" using n(1) by (simp add: less_eq_div_iff_mult_less_eq)
    moreover have "n div 64 < 4" using n(2) by (simp add: div_less_iff_less_mult)
    ultimately show ?thesis by linarith
  qed
  have a: "(of_char (char_of (192 + n div 64)) :: nat) = 192 + n div 64"
    using d by auto
  have "128 + n mod 64 < 256" using m by linarith
  then have b: "(of_char (char_of (128 + n mod 64)) :: nat) = 128 + n mod 64"
    by (simp only: of_char_of mod_less)
  have e: "n = n div 64 * 64 + n mod 64" by simp
  have r: "(192 + n div 64) mod 32 * 64 + n mod 64 = n"
    using d e by (elim disjE) simp_all
  have c: "contBits (char_of (128 + n mod 64)) = n mod 64"
    unfolding contBits_def b using mod_shift[of 2 64 "128 + n mod 64"] m by simp
  have i: "inRange 128 191 (char_of (128 + n mod 64))"
    unfolding inRange_def b using m by simp
  have x: "194 \<le> 192 + n div 64 \<and> 192 + n div 64 \<le> 223" using d by auto
  have "DecodeRuneInString (stringOfByte b) = (n, 2)"
    using False x
    by (simp add: stringOfByte_def Let_def n_def[symmetric] a i c r del: of_char_of)
  then show ?thesis by (simp add: n_def)
qed

subsection \<open>The transform, byte by byte\<close>

lemma validIDChar_ge: "128 \<le> k \<Longrightarrow> \<not> validIDChar k"
  by (auto simp: validIDChar_def)

lemma validIDByte_lt: "validIDByte b \<Longrightarrow> (of_char b :: nat) < 128"
  by (auto simp: validIDByte_def validIDChar_def)

lemma escapeRun_foldl:
  "foldl (\<lambda>r b. case DecodeRuneInString (stringOfByte b) of (uc, _) \<Rightarrow> r @ ''C'' @ fmt_d uc) acc s
     = acc @ concat (map (\<lambda>b. ''C'' @ fmt_d (of_char b)) s)"
proof (induction s arbitrary: acc)
  case Nil
  then show ?case by simp
next
  case (Cons b s)
  obtain uc w where d: "DecodeRuneInString (stringOfByte b) = (uc, w)"
    by (cases "DecodeRuneInString (stringOfByte b)")
  then have "uc = of_char b" using decode_stringOfByte[of b] by simp
  with d Cons show ?case by simp
qed

lemma escapeRun_concat: "escapeRun s = concat (map (\<lambda>b. ''C'' @ fmt_d (of_char b)) s)"
  unfolding escapeRun_def escapeRun_foldl by simp

lemma escapeRun_invalid:
  "\<forall>b \<in> set s. \<not> validIDByte b \<Longrightarrow> escapeRun s = concat (map escapeByte s)"
  unfolding escapeRun_concat by (induction s) (simp_all add: escapeByte_def)

lemma matchLen_le: "matchLen s \<le> length s"
proof (induction s rule: matchLen.induct)
  case 1
  then show ?case by simp
next
  case (2 c s)
  obtain r w where d: "DecodeRuneInString (c # s) = (r, w)"
    by (cases "DecodeRuneInString (c # s)")
  show ?case
  proof (cases "validIDChar r")
    case True
    with d show ?thesis by simp
  next
    case False
    from d have w: "1 \<le> w" "w \<le> Suc (length s)" using decode_width by blast+
    from 2[OF d[symmetric] False] have "matchLen (drop (w - 1) s) \<le> length s - (w - 1)"
      by simp
    with d False w show ?thesis by simp
  qed
qed

lemma matchLen_invalid: "\<forall>b \<in> set (take (matchLen s) s). \<not> validIDByte b"
proof (induction s rule: matchLen.induct)
  case 1
  then show ?case by simp
next
  case (2 c s)
  obtain r w where d: "DecodeRuneInString (c # s) = (r, w)"
    by (cases "DecodeRuneInString (c # s)")
  show ?case
  proof (cases "validIDChar r")
    case True
    with d show ?thesis by simp
  next
    case False
    from d have w: "1 \<le> w" "w \<le> Suc (length s)" using decode_width by blast+
    have ih: "\<forall>b \<in> set (take (matchLen (drop (w - 1) s)) (drop (w - 1) s)). \<not> validIDByte b"
      using 2[OF d[symmetric] False] .
    have first: "\<forall>b \<in> set (take w (c # s)). \<not> validIDByte b"
    proof (cases "(of_char c :: nat) < 128")
      case True
      with d have "r = of_char c" "w = 1" by (simp_all add: decode_ascii)
      with False show ?thesis by (simp add: validIDByte_def)
    next
      case False
      from decode_bytes_ge[OF False d] show ?thesis
        using validIDByte_lt by fastforce
    qed
    have m: "matchLen (c # s) = w + matchLen (drop (w - 1) s)"
      using d False by simp
    have dr: "drop w (c # s) = drop (w - 1) s" using w by (cases w) simp_all
    have "take (w + matchLen (drop (w - 1) s)) (c # s)
            = take w (c # s) @ take (matchLen (drop (w - 1) s)) (drop (w - 1) s)"
      by (simp only: take_add dr)
    with m first ih show ?thesis by auto
  qed
qed

lemma matchLen_zero: "matchLen (c # s) = 0 \<Longrightarrow> validIDByte c"
proof -
  assume z: "matchLen (c # s) = 0"
  obtain r w where d: "DecodeRuneInString (c # s) = (r, w)"
    by (cases "DecodeRuneInString (c # s)")
  from d have w: "1 \<le> w" using decode_width by blast
  with z d have v: "validIDChar r" by (simp split: if_splits)
  show ?thesis
  proof (cases "(of_char c :: nat) < 128")
    case True
    with d v show ?thesis by (simp add: decode_ascii validIDByte_def)
  next
    case False
    from decode_rune_ge[OF False d] v show ?thesis using validIDChar_ge by blast
  qed
qed

lemma Replace_escapeRun: "ReplaceAllStringFunc escapeRun s = concat (map escapeByte s)"
proof (induction escapeRun s rule: ReplaceAllStringFunc.induct)
  case 1
  then show ?case by simp
next
  case (2 c s)
  define n where "n = matchLen (c # s)"
  have unf: "ReplaceAllStringFunc escapeRun (c # s) =
      (if n = 0 then c # ReplaceAllStringFunc escapeRun s
       else escapeRun (take n (c # s)) @ ReplaceAllStringFunc escapeRun (drop (n - 1) s))"
    by (simp only: ReplaceAllStringFunc.simps Let_def n_def)
  show ?case
  proof (cases "n = 0")
    case True
    then have "validIDByte c" using matchLen_zero by (simp add: n_def)
    with True 2(1)[OF n_def True] show ?thesis
      unfolding unf by (simp add: escapeByte_def)
  next
    case False
    have inv: "\<forall>b \<in> set (take n (c # s)). \<not> validIDByte b"
      unfolding n_def by (rule matchLen_invalid)
    have dr: "drop n (c # s) = drop (n - 1) s" using False by (cases n) simp_all
    have "concat (map escapeByte (c # s))
            = concat (map escapeByte (take n (c # s))) @ concat (map escapeByte (drop n (c # s)))"
      by (metis append_take_drop_id concat_append map_append)
    also have "\<dots> = escapeRun (take n (c # s)) @ ReplaceAllStringFunc escapeRun (drop (n - 1) s)"
      using escapeRun_invalid[OF inv] 2(2)[OF n_def False] dr by simp
    finally show ?thesis unfolding unf using False by simp
  qed
qed

lemma stringToIdentifier_bytes: "stringToIdentifier s = concat (map escapeByte s)"
  by (simp add: stringToIdentifier_def Replace_escapeRun)


subsection \<open>The result holds allowed characters only\<close>

lemma fmt_d_valid: "list_all validIDByte (fmt_d n)"
proof (induction n rule: fmt_d.induct)
  case (1 n)
  have k: "\<And>k::nat. k < 10 \<Longrightarrow> validIDByte (char_of (48 + k))"
    by (simp add: validIDByte_def validIDChar_def)
  show ?case
  proof (cases "n < 10")
    case True
    then show ?thesis using k by (subst fmt_d.simps) simp
  next
    case False
    have "n mod 10 < 10" by simp
    with False 1 k[of "n mod 10"] show ?thesis by (subst fmt_d.simps) simp
  qed
qed

lemma escapeByte_valid: "list_all validIDByte (escapeByte b)"
  using fmt_d_valid[of "of_char b"]
  by (simp add: escapeByte_def) (simp add: validIDByte_def validIDChar_def)

lemma stringToIdentifier_valid: "list_all validIDByte (stringToIdentifier s)"
  unfolding stringToIdentifier_bytes
  by (induction s) (simp_all add: escapeByte_valid)

lemma stringToIdentifier_fixed:
  "list_all validIDByte t \<Longrightarrow> stringToIdentifier t = t"
  unfolding stringToIdentifier_bytes
  by (induction t) (simp_all add: escapeByte_def)

lemma allowed_all:
  "list_all (\<lambda>n. char_of n \<in> set allowedChars)
     ([97..<123] @ [65..<91] @ [48..<58] @ [46, 45::nat])"
  by code_simp

lemma validIDByte_allowed: "validIDByte c \<Longrightarrow> c \<in> set allowedChars"
proof -
  assume "validIDByte c"
  then have "(of_char c :: nat) \<in> {97..<123} \<union> {65..<91} \<union> {48..<58} \<union> {46, 45}"
    by (auto simp: validIDByte_def validIDChar_def)
  then have "(of_char c :: nat) \<in> set ([97..<123] @ [65..<91] @ [48..<58] @ [46, 45::nat])"
    by (simp only: set_append set_upt list.set Un_assoc)
  with allowed_all have "char_of (of_char c :: nat) \<in> set allowedChars"
    unfolding list_all_iff by blast
  then show ?thesis by simp
qed

text \<open>
  Claim C3. \<^verbatim>\<open>stringToIdentifier\<close> maps \<^verbatim>\<open>"Hello World!"\<close> to
  \<^verbatim>\<open>"HelloC32WorldC33"\<close>: the space and the exclamation mark each become \<^verbatim>\<open>C\<close>
  followed by the decimal code point. The two bytes \<^verbatim>\<open>0xC3 0xA9\<close> that encode the
  letter e with acute accent are escaped one byte at a time, giving the two segments
  \<^verbatim>\<open>C195\<close> and \<^verbatim>\<open>C169\<close> and not one segment for the character (which would be
  \<^verbatim>\<open>C233\<close>).
\<close>

theorem C3_stringToIdentifier_examples:
  "stringToIdentifier ''Hello World!'' = ''HelloC32WorldC33''
   \<and> stringToIdentifier [CHR 0xC3, CHR 0xA9] = ''C195C169''
   \<and> stringToIdentifier [CHR 0xC3, CHR 0xA9] \<noteq> ''C233''"
  by code_simp

text \<open>
  Claim C10. For every input, the result of \<^verbatim>\<open>stringToIdentifier\<close> holds only
  characters of the allowed set (letters, digits, dot, hyphen), and the transform is
  idempotent: applied to its own result it returns that result unchanged.
\<close>

theorem C10_stringToIdentifier_idempotent:
  "set (stringToIdentifier s) \<subseteq> set allowedChars
   \<and> stringToIdentifier (stringToIdentifier s) = stringToIdentifier s"
  using stringToIdentifier_valid[of s] stringToIdentifier_fixed[of "stringToIdentifier s"]
  by (auto simp: list_all_iff validIDByte_allowed)

section \<open>Properties of the SPDX generator\<close>

subsection \<open>What \<^verbatim>\<open>Generate\<close> builds\<close>

lemma layerPackage_Inr: "\<exists>lp. layerPackage E opts = Inr lp"
  by (simp add: layerPackage_def Let_def)

lemma apkPackage_Inr: "apkPackage E opts pkg = Inr (projr (apkPackage E opts pkg))"
  by (simp add: apkPackage_def)

lemma addPackages_eq:
  "addPackages E opts lp pkgs doc =
     Inr (doc\<lparr> Packages := Packages doc @ map (apkNode E opts lp) pkgs,
               Relationships := Relationships doc @ map (\<lambda>pkg. contains lp (apkNode E opts lp pkg)) pkgs \<rparr>)"
proof (induction pkgs arbitrary: doc)
  case Nil
  then show ?case by simp
next
  case (Cons pkg pkgs)
  have a: "apkPackage E opts pkg = Inr (projr (apkPackage E opts pkg))" by (rule apkPackage_Inr)
  show ?case
    apply (subst addPackages.simps)
    apply (subst a)
    apply (simp add: Let_def Cons.IH apkNode_def contains_def del: addPackages.simps)
    done
qed

lemma Generate_Inr:
  assumes "Generate E opts path = Inr doc" and "layerPackage E opts = Inr lp"
  shows "Packages doc = (if ImageDigest (OptImageInfo opts) \<noteq> '''' then [imagePackage E opts] else [])
                          @ lp # map (apkNode E opts lp) (OptPackages opts)"
    and "Relationships doc = (if ImageDigest (OptImageInfo opts) \<noteq> '''' then [contains (imagePackage E opts) lp] else [])
                          @ map (\<lambda>pkg. contains lp (apkNode E opts lp pkg)) (OptPackages opts)"
    and "DocumentDescribes doc = [if ImageDigest (OptImageInfo opts) \<noteq> '''' then ID (imagePackage E opts) else ID lp]"
  using assms
  by (auto simp: Generate_def Let_def addPackages_eq contains_def split: option.splits if_splits)

lemma Generate_Inl:
  assumes "Generate E opts path = Inl err"
  shows "(\<exists>e. osCreate E path = Some e \<and> err = Errorf (''opening SBOM path '' @ path @ '' for writing'') e)
       \<or> (\<exists>e d. osCreate E path = None \<and> jsonEncode E d = Some e \<and> err = Errorf ''encoding spdx sbom'' e)"
proof -
  obtain lp where lp: "layerPackage E opts = Inr lp" using layerPackage_Inr by blast
  show ?thesis
    using assms
    by (auto simp: Generate_def Let_def lp addPackages_eq split: option.splits if_splits)
qed

lemma Generate_succeeds:
  assumes "osCreate E path = None" and "\<And>d. jsonEncode E d = None"
  shows "\<exists>doc. Generate E opts path = Inr doc"
proof (cases "Generate E opts path")
  case (Inl err)
  from Generate_Inl[OF Inl] assms show ?thesis by auto
next
  case (Inr doc)
  then show ?thesis by blast
qed

lemma example_succeeds: "\<exists>doc. Generate exampleExt (exampleOptions d pkgs) path = Inr doc"
  by (rule Generate_succeeds) (simp_all add: exampleExt_def)

text \<open>
  Claim C2. In every document that \<^verbatim>\<open>Generate\<close> writes, both endpoints of every
  relationship are identifiers of package nodes of the document, and
  \<^verbatim>\<open>documentDescribes\<close> holds exactly one identifier: that of the image node when the
  image digest is present, that of the layer node otherwise.
\<close>

theorem C2_sbom_closed:
  assumes "Generate E opts path = Inr doc"
  shows "(\<forall>r \<in> set (Relationships doc).
            Element r \<in> ID ` set (Packages doc) \<and> Related r \<in> ID ` set (Packages doc))
       \<and> (\<exists>lp. layerPackage E opts = Inr lp \<and> lp \<in> set (Packages doc)
             \<and> (ImageDigest (OptImageInfo opts) \<noteq> '''' \<longrightarrow>
                   imagePackage E opts \<in> set (Packages doc)
                   \<and> DocumentDescribes doc = [ID (imagePackage E opts)])
             \<and> (ImageDigest (OptImageInfo opts) = '''' \<longrightarrow> DocumentDescribes doc = [ID lp]))"
proof -
  obtain lp where lp: "layerPackage E opts = Inr lp" using layerPackage_Inr by blast
  note g = Generate_Inr[OF assms lp]
  have "\<forall>r \<in> set (Relationships doc).
            Element r \<in> ID ` set (Packages doc) \<and> Related r \<in> ID ` set (Packages doc)"
    unfolding g(1) g(2) by (auto simp: contains_def)
  moreover have "lp \<in> set (Packages doc)" unfolding g(1) by simp
  moreover have "ImageDigest (OptImageInfo opts) \<noteq> '''' \<longrightarrow>
                   imagePackage E opts \<in> set (Packages doc)
                   \<and> DocumentDescribes doc = [ID (imagePackage E opts)]"
    unfolding g(1) g(3) by simp
  moreover have "ImageDigest (OptImageInfo opts) = '''' \<longrightarrow> DocumentDescribes doc = [ID lp]"
    unfolding g(3) by simp
  ultimately show ?thesis using lp by blast
qed

theorem C2_sbom_closed_witness:
  "\<exists>doc. Generate exampleExt (exampleOptions ''sha256:ab'' [examplePkg]) ''sbom.spdx.json'' = Inr doc
     \<and> Element ` set (Relationships doc) \<subseteq> ID ` set (Packages doc)
     \<and> Related ` set (Relationships doc) \<subseteq> ID ` set (Packages doc)
     \<and> DocumentDescribes doc = [''SPDXRef-Package-sha256C58ab'']"
proof -
  obtain doc where
    h: "Generate exampleExt (exampleOptions ''sha256:ab'' [examplePkg]) ''sbom.spdx.json'' = Inr doc"
    using example_succeeds by blast
  have d: "ImageDigest (OptImageInfo (exampleOptions ''sha256:ab'' [examplePkg])) \<noteq> ''''"
    by (simp add: exampleOptions_def)
  have i: "stringToIdentifier ''SPDXRef-Package-sha256:ab'' = ''SPDXRef-Package-sha256C58ab''"
    by code_simp
  have "ID (imagePackage exampleExt (exampleOptions ''sha256:ab'' [examplePkg]))
          = ''SPDXRef-Package-sha256C58ab''"
    using i by (simp add: imagePackage_def exampleOptions_def Let_def)
  with C2_sbom_closed[OF h] d h show ?thesis by auto
qed

text \<open>
  Claim C6. With exactly one resolved package and an image digest, the document has
  exactly three package nodes (image, layer, package, in this order) and exactly two
  relationships, both \<^verbatim>\<open>CONTAINS\<close>: image to layer, and layer to the package's node.
\<close>

theorem C6_one_package_with_image:
  assumes "Generate E opts path = Inr doc"
    and "OptPackages opts = [pkg]"
    and "ImageDigest (OptImageInfo opts) \<noteq> ''''"
  shows "\<exists>lp p. layerPackage E opts = Inr lp
           \<and> p = apkNode E opts lp pkg \<and> Name p = PkgName pkg \<and> Version p = PkgVersion pkg
           \<and> Packages doc = [imagePackage E opts, lp, p]
           \<and> Relationships doc =
               [\<lparr> Element = ID (imagePackage E opts), Type = ''CONTAINS'', Related = ID lp \<rparr>,
                \<lparr> Element = ID lp, Type = ''CONTAINS'', Related = ID p \<rparr>]"
proof -
  obtain lp where lp: "layerPackage E opts = Inr lp" using layerPackage_Inr by blast
  note g = Generate_Inr[OF assms(1) lp]
  have "Name (apkNode E opts lp pkg) = PkgName pkg" "Version (apkNode E opts lp pkg) = PkgVersion pkg"
    by (simp_all add: apkNode_def apkPackage_def)
  with lp g(1) g(2) assms(2,3) show ?thesis by (simp add: contains_def)
qed

theorem C6_one_package_with_image_witness:
  "\<exists>doc. Generate exampleExt (exampleOptions ''sha256:ab'' [examplePkg]) ''sbom.spdx.json'' = Inr doc
     \<and> length (Packages doc) = 3 \<and> map Name (Packages doc) = [''img@sha256:ab'', ''img@sha256:1f'', ''busybox'']
     \<and> map Type (Relationships doc) = [''CONTAINS'', ''CONTAINS'']
     \<and> map Element (Relationships doc) = map ID (butlast (Packages doc))
     \<and> map Related (Relationships doc) = map ID (tl (Packages doc))"
proof -
  obtain doc where
    h: "Generate exampleExt (exampleOptions ''sha256:ab'' [examplePkg]) ''sbom.spdx.json'' = Inr doc"
    using example_succeeds by blast
  have p: "OptPackages (exampleOptions ''sha256:ab'' [examplePkg]) = [examplePkg]"
    by (simp add: exampleOptions_def)
  have d: "ImageDigest (OptImageInfo (exampleOptions ''sha256:ab'' [examplePkg])) \<noteq> ''''"
    by (simp add: exampleOptions_def)
  have n: "Name (imagePackage exampleExt (exampleOptions ''sha256:ab'' [examplePkg])) = ''img@sha256:ab''"
    by (simp add: imagePackage_def exampleOptions_def Let_def)
  have l: "\<And>lp. layerPackage exampleExt (exampleOptions ''sha256:ab'' [examplePkg]) = Inr lp
             \<Longrightarrow> Name lp = ''img@sha256:1f''"
    by (auto simp: layerPackage_def exampleOptions_def Let_def)
  have k: "PkgName examplePkg = ''busybox''" by (simp add: examplePkg_def)
  from C6_one_package_with_image[OF h p d] n l k h show ?thesis by auto
qed

text \<open>
  Claim C7. With no resolved package and no image digest, the document has exactly one
  package node, the layer node, and no relationship.
\<close>

theorem C7_no_package_no_image:
  assumes "Generate E opts path = Inr doc"
    and "OptPackages opts = []"
    and "ImageDigest (OptImageInfo opts) = ''''"
  shows "\<exists>lp. layerPackage E opts = Inr lp \<and> Packages doc = [lp] \<and> Relationships doc = []"
proof -
  obtain lp where lp: "layerPackage E opts = Inr lp" using layerPackage_Inr by blast
  note g = Generate_Inr[OF assms(1) lp]
  from lp g(1) g(2) assms(2,3) show ?thesis by simp
qed

theorem C7_no_package_no_image_witness:
  "\<exists>doc. Generate exampleExt (exampleOptions '''' []) ''sbom.spdx.json'' = Inr doc
     \<and> map Name (Packages doc) = [''img@sha256:1f''] \<and> Relationships doc = []"
proof -
  obtain doc where h: "Generate exampleExt (exampleOptions '''' []) ''sbom.spdx.json'' = Inr doc"
    using example_succeeds by blast
  have p: "OptPackages (exampleOptions '''' []) = []" by (simp add: exampleOptions_def)
  have d: "ImageDigest (OptImageInfo (exampleOptions '''' [])) = ''''"
    by (simp add: exampleOptions_def)
  have l: "\<And>lp. layerPackage exampleExt (exampleOptions '''' []) = Inr lp
             \<Longrightarrow> Name lp = ''img@sha256:1f''"
    by (auto simp: layerPackage_def exampleOptions_def Let_def)
  from C7_no_package_no_image[OF h p d] l h show ?thesis by auto
qed

lemma TrimPrefix_append: "TrimPrefix (p @ h) p = h"
  by (simp add: TrimPrefix_def)

text \<open>
  Claim C8 says that the image node's checksum is the image digest split into its
  algorithm part and its hex part. \<^verbatim>\<open>imagePackage\<close> does not split: the algorithm is
  the constant \<^verbatim>\<open>SHA256\<close> and the value is the digest less a leading \<^verbatim>\<open>sha256:\<close>. For
  the digest \<^verbatim>\<open>sha512:abcd\<close> the entry is \<^verbatim>\<open>(SHA256, sha512:abcd)\<close>, which is not the
  split \<^verbatim>\<open>(sha512, abcd)\<close>.
\<close>

theorem C8_counterexample:
  "ImageDigest (OptImageInfo (exampleOptions ''sha512:abcd'' [])) = ''sha512:abcd''
   \<and> spec_splitDigest ''sha512:abcd'' = (''sha512'', ''abcd'')
   \<and> Checksums (imagePackage exampleExt (exampleOptions ''sha512:abcd'' []))
        = [\<lparr> Algorithm = ''SHA256'', Value = ''sha512:abcd'' \<rparr>]
   \<and> \<not> spec_checksumsSplitFrom ''sha512:abcd''
         (Checksums (imagePackage exampleExt (exampleOptions ''sha512:abcd'' [])))"
  by (simp add: exampleOptions_def imagePackage_def Let_def TrimPrefix_def spec_splitDigest_def
      spec_checksumsSplitFrom_def)

text \<open>
  Claim C8, as the code has it. When the image digest is not empty, the first package
  node of the document is the image node, and its checksum list has exactly one entry:
  algorithm \<^verbatim>\<open>SHA256\<close>, value the digest with a leading \<^verbatim>\<open>sha256:\<close> removed, so
  that a digest \<^verbatim>\<open>sha256:h\<close> gives the value \<^verbatim>\<open>h\<close>. When the image digest is empty
  there is no image node: the nodes are the layer node and one node for each resolved
  package. No error comes from the digest: \<^verbatim>\<open>Generate\<close> fails only when the output
  file cannot be created or the document cannot be encoded.
\<close>

theorem C8_image_checksum:
  "(Generate E opts path = Inr doc \<and> ImageDigest (OptImageInfo opts) \<noteq> '''' \<longrightarrow>
      hd (Packages doc) = imagePackage E opts
      \<and> Checksums (imagePackage E opts)
          = [\<lparr> Algorithm = ''SHA256'',
               Value = TrimPrefix (ImageDigest (OptImageInfo opts)) ''sha256:'' \<rparr>]
      \<and> (\<forall>h. ImageDigest (OptImageInfo opts) = ''sha256:'' @ h \<longrightarrow>
             Checksums (imagePackage E opts) = [\<lparr> Algorithm = ''SHA256'', Value = h \<rparr>]))
   \<and> (Generate E opts path = Inr doc \<and> ImageDigest (OptImageInfo opts) = '''' \<longrightarrow>
        (\<exists>lp. layerPackage E opts = Inr lp
           \<and> Packages doc = lp # map (apkNode E opts lp) (OptPackages opts)))
   \<and> (Generate E opts path = Inl err \<longrightarrow>
        osCreate E path \<noteq> None \<or> (\<exists>d. jsonEncode E d \<noteq> None))"
proof -
  obtain lp where lp: "layerPackage E opts = Inr lp" using layerPackage_Inr by blast
  have c: "Checksums (imagePackage E opts)
          = [\<lparr> Algorithm = ''SHA256'',
               Value = TrimPrefix (ImageDigest (OptImageInfo opts)) ''sha256:'' \<rparr>]"
    by (simp add: imagePackage_def Let_def)
  have a: "Generate E opts path = Inr doc \<and> ImageDigest (OptImageInfo opts) \<noteq> '''' \<longrightarrow>
      hd (Packages doc) = imagePackage E opts"
    using Generate_Inr(1)[OF _ lp] by auto
  have h: "\<forall>h. ImageDigest (OptImageInfo opts) = ''sha256:'' @ h \<longrightarrow>
             Checksums (imagePackage E opts) = [\<lparr> Algorithm = ''SHA256'', Value = h \<rparr>]"
    unfolding c using TrimPrefix_append[of "''sha256:''"] by auto
  have b: "Generate E opts path = Inr doc \<and> ImageDigest (OptImageInfo opts) = '''' \<longrightarrow>
        (\<exists>lp. layerPackage E opts = Inr lp
           \<and> Packages doc = lp # map (apkNode E opts lp) (OptPackages opts))"
    using Generate_Inr(1)[OF _ lp] lp by auto
  have e: "Generate E opts path = Inl err \<longrightarrow>
        osCreate E path \<noteq> None \<or> (\<exists>d. jsonEncode E d \<noteq> None)"
    using Generate_Inl[of E opts path err] by auto
  from a c h b e show ?thesis by blast
qed

theorem C8_image_checksum_witness:
  "\<exists>doc. Generate exampleExt (exampleOptions ''sha256:ab'' [examplePkg]) ''sbom.spdx.json'' = Inr doc
     \<and> Checksums (hd (Packages doc)) = [\<lparr> Algorithm = ''SHA256'', Value = ''ab'' \<rparr>]"
proof -
  obtain doc where
    h: "Generate exampleExt (exampleOptions ''sha256:ab'' [examplePkg]) ''sbom.spdx.json'' = Inr doc"
    using example_succeeds by blast
  have d: "ImageDigest (OptImageInfo (exampleOptions ''sha256:ab'' [examplePkg])) = ''sha256:'' @ ''ab''"
    by (simp add: exampleOptions_def)
  then have n: "ImageDigest (OptImageInfo (exampleOptions ''sha256:ab'' [examplePkg])) \<noteq> ''''"
    by simp
  from C8_image_checksum[of exampleExt "exampleOptions ''sha256:ab'' [examplePkg]" "''sbom.spdx.json''" doc]
    h d n
  have "hd (Packages doc) = imagePackage exampleExt (exampleOptions ''sha256:ab'' [examplePkg])"
    and "Checksums (imagePackage exampleExt (exampleOptions ''sha256:ab'' [examplePkg]))
           = [\<lparr> Algorithm = ''SHA256'', Value = ''ab'' \<rparr>]"
    by blast+
  with h show ?thesis by auto
qed

section \<open>Properties of the build pipeline\<close>

subsection \<open>Running the steps\<close>

lemma runSteps_append:
  "runSteps (pre @ post) bc =
     (case runSteps pre bc of (bc', Some err) \<Rightarrow> (bc', Some err) | (bc', None) \<Rightarrow> runSteps post bc')"
  by (induction pre arbitrary: bc) (auto split: prod.splits option.splits)

lemma runSteps_abort:
  assumes "runSteps pre bc = (bc1, None)" and "s bc1 = (bc2, Some err)"
  shows "runSteps (pre @ s # post) bc = (bc2, Some err)"
  using assms by (simp add: runSteps_append)







subsection \<open>The first error ends the pipeline\<close>





subsection \<open>The OS-release step\<close>

lemma stepGenerateOSRelease_present:
  "osReleasePath \<in> dom (bc_fs bc) \<Longrightarrow>
     stepGenerateOSRelease B bc
       = (bc\<lparr> bc_log := bc_log bc @
                 [Warnf ''did not generate /etc/os-release: %v'' ErrOSReleaseAlreadyPresent] \<rparr>,
          None)"
  by (simp add: stepGenerateOSRelease_def GenerateOSRelease_def ErrOSReleaseAlreadyPresent_def)

lemma buildSteps_split:
  "buildSteps B =
     [stepFixateWorld B, stepAdditionalTags B, stepMutateAccounts B, stepMutatePaths B]
     @ stepGenerateOSRelease B
     # [stepWriteSupervisionTree B, stepBusyboxLinks B, stepLdconfigLinks B, stepCharDevices B]"
  by (simp add: buildSteps_def)

text \<open>
  Claim C5. When the tree already has the OS-release file as the OS-release step runs,
  the step logs a warning, leaves the tree (and so the file) as it is and reports no
  error; the remaining steps then run, and when they succeed \<^verbatim>\<open>buildImage\<close> succeeds.
  Any error of \<^verbatim>\<open>GenerateOSRelease\<close> that is not the sentinel is fatal: \<^verbatim>\<open>buildImage\<close>
  returns it wrapped and runs no later step.
\<close>

theorem C5_os_release_present:
  "(osReleasePath \<in> dom (bc_fs bc) \<longrightarrow>
      stepGenerateOSRelease B bc
        = (bc\<lparr> bc_log := bc_log bc @
                  [Warnf ''did not generate /etc/os-release: %v'' ErrOSReleaseAlreadyPresent] \<rparr>,
           None))
   \<and> (runSteps [stepFixateWorld B, stepAdditionalTags B, stepMutateAccounts B, stepMutatePaths B] bc
          = (bcm, None)
        \<and> osReleasePath \<in> dom (bc_fs bcm)
        \<and> runSteps [stepWriteSupervisionTree B, stepBusyboxLinks B, stepLdconfigLinks B,
                    stepCharDevices B]
             (bcm\<lparr> bc_log := bc_log bcm @
                     [Warnf ''did not generate /etc/os-release: %v'' ErrOSReleaseAlreadyPresent] \<rparr>)
          = (bce, None)
      \<longrightarrow> buildImage B bc
            = (bce\<lparr> bc_log := bc_log bce @
                       [Infof ''finished building filesystem in %s'' (WorkDir (bc_o bce))] \<rparr>,
               None))
   \<and> (runSteps [stepFixateWorld B, stepAdditionalTags B, stepMutateAccounts B, stepMutatePaths B] bc
          = (bcm, None)
        \<and> GenerateOSRelease B (bc_fs bcm) (bc_o bcm) (bc_ic bcm) = (t, Some err)
        \<and> \<not> errorsIs err ErrOSReleaseAlreadyPresent
      \<longrightarrow> buildImage B bc
            = (bcm\<lparr> bc_fs := t \<rparr>, Some (Errorf ''failed to generate /etc/os-release'' err)))"
proof (intro conjI impI)
  assume "osReleasePath \<in> dom (bc_fs bc)"
  then show "stepGenerateOSRelease B bc
        = (bc\<lparr> bc_log := bc_log bc @
                  [Warnf ''did not generate /etc/os-release: %v'' ErrOSReleaseAlreadyPresent] \<rparr>,
           None)"
    by (rule stepGenerateOSRelease_present)
next
  assume a: "runSteps [stepFixateWorld B, stepAdditionalTags B, stepMutateAccounts B, stepMutatePaths B] bc
          = (bcm, None)
        \<and> osReleasePath \<in> dom (bc_fs bcm)
        \<and> runSteps [stepWriteSupervisionTree B, stepBusyboxLinks B, stepLdconfigLinks B,
                    stepCharDevices B]
             (bcm\<lparr> bc_log := bc_log bcm @
                     [Warnf ''did not generate /etc/os-release: %v'' ErrOSReleaseAlreadyPresent] \<rparr>)
          = (bce, None)"
  then have s: "stepGenerateOSRelease B bcm
        = (bcm\<lparr> bc_log := bc_log bcm @
                  [Warnf ''did not generate /etc/os-release: %v'' ErrOSReleaseAlreadyPresent] \<rparr>,
           None)"
    using stepGenerateOSRelease_present by blast
  have "runSteps (buildSteps B) bc = (bce, None)"
    unfolding buildSteps_split runSteps_append using a s
    by (simp del: runSteps.simps add: runSteps.simps(2)[of "stepGenerateOSRelease B"])
  then show "buildImage B bc
            = (bce\<lparr> bc_log := bc_log bce @
                       [Infof ''finished building filesystem in %s'' (WorkDir (bc_o bce))] \<rparr>,
               None)"
    by (simp add: buildImage_def)
next
  assume a: "runSteps [stepFixateWorld B, stepAdditionalTags B, stepMutateAccounts B, stepMutatePaths B] bc
          = (bcm, None)
        \<and> GenerateOSRelease B (bc_fs bcm) (bc_o bcm) (bc_ic bcm) = (t, Some err)
        \<and> \<not> errorsIs err ErrOSReleaseAlreadyPresent"
  then have s: "stepGenerateOSRelease B bcm
      = (bcm\<lparr> bc_fs := t \<rparr>, Some (Errorf ''failed to generate /etc/os-release'' err))"
    by (simp add: stepGenerateOSRelease_def)
  have "runSteps (buildSteps B) bc
      = (bcm\<lparr> bc_fs := t \<rparr>, Some (Errorf ''failed to generate /etc/os-release'' err))"
    unfolding buildSteps_split using runSteps_abort a s by blast
  then show "buildImage B bc
            = (bcm\<lparr> bc_fs := t \<rparr>, Some (Errorf ''failed to generate /etc/os-release'' err))"
    by (simp add: buildImage_def)
qed

lemmas step_defs = stepFixateWorld_def stepAdditionalTags_def
      stepMutateAccounts_def stepMutatePaths_def stepGenerateOSRelease_def
      stepWriteSupervisionTree_def stepBusyboxLinks_def stepLdconfigLinks_def
      stepCharDevices_def additionalTags_def GenerateOSRelease_def osReleasePath_def

theorem C5_os_release_present_witness:
  "snd (buildImage exampleBenv exampleContext) = None
   \<and> bc_fs (fst (buildImage exampleBenv exampleContext)) ''/etc/os-release'' = Some ''ID=custom''
   \<and> bc_log (fst (buildImage exampleBenv exampleContext))
       = [Warnf ''did not generate /etc/os-release: %v'' ErrOSReleaseAlreadyPresent,
          Infof ''finished building filesystem in %s'' ''/work'']"
proof -
  define M where "M = fst (runSteps [stepFixateWorld exampleBenv, stepAdditionalTags exampleBenv,
      stepMutateAccounts exampleBenv, stepMutatePaths exampleBenv] exampleContext)"
  have m: "runSteps [stepFixateWorld exampleBenv, stepAdditionalTags exampleBenv,
      stepMutateAccounts exampleBenv, stepMutatePaths exampleBenv] exampleContext = (M, None)"
    unfolding M_def by (simp add: step_defs exampleBenv_def exampleContext_def)
  have mfs: "bc_fs M ''/etc/os-release'' = Some ''ID=custom''"
    and mlog: "bc_log M = []" and mwd: "WorkDir (bc_o M) = ''/work''"
    unfolding M_def by (simp_all add: step_defs exampleBenv_def exampleContext_def)
  have p: "osReleasePath \<in> dom (bc_fs M)" using mfs by (auto simp: osReleasePath_def)
  define E where "E = fst (runSteps [stepWriteSupervisionTree exampleBenv,
      stepBusyboxLinks exampleBenv, stepLdconfigLinks exampleBenv, stepCharDevices exampleBenv]
      (M\<lparr> bc_log := bc_log M @
            [Warnf ''did not generate /etc/os-release: %v'' ErrOSReleaseAlreadyPresent] \<rparr>))"
  have e: "runSteps [stepWriteSupervisionTree exampleBenv,
      stepBusyboxLinks exampleBenv, stepLdconfigLinks exampleBenv, stepCharDevices exampleBenv]
      (M\<lparr> bc_log := bc_log M @
            [Warnf ''did not generate /etc/os-release: %v'' ErrOSReleaseAlreadyPresent] \<rparr>)
      = (E, None)"
    unfolding E_def by (simp add: step_defs exampleBenv_def)
  have efs: "bc_fs E ''/etc/os-release'' = Some ''ID=custom''"
    and elog: "bc_log E = [Warnf ''did not generate /etc/os-release: %v'' ErrOSReleaseAlreadyPresent]"
    and ewd: "WorkDir (bc_o E) = ''/work''"
    unfolding E_def using mfs mlog mwd by (simp_all add: step_defs exampleBenv_def)
  from C5_os_release_present[where B = exampleBenv and bc = exampleContext and bcm = M
      and bce = E] m p e
  have "buildImage exampleBenv exampleContext
          = (E\<lparr> bc_log := bc_log E @
                   [Infof ''finished building filesystem in %s'' (WorkDir (bc_o E))] \<rparr>, None)"
    by blast
  then show ?thesis using efs elog ewd by simp
qed

subsection \<open>What the build changes in its options\<close>


lemma onlyTagsAppended_append: "onlyTagsAppended a (a\<lparr> Tags := Tags a @ ts \<rparr>)"
  by (simp add: onlyTagsAppended_def)










subsection \<open>The tarball\<close>


lemma BuildTarball_succeeds:
  assumes "createErr H (if TarballPath (bc_o bc) \<noteq> [] then TarballPath (bc_o bc)
             else filepathJoin B (TempDir B (bc_o bc)) (TarballFileName B (bc_o bc))) = None"
    and "TarNewContext B (BuildSourceDateEpoch (bc_o bc)) = None"
    and "snd (WriteTar B (BuildSourceDateEpoch (bc_o bc)) (bc_fs bc)) = None"
    and "closeErr H = None" and "flushErr H = None" and "statErr H = None"
  shows "\<exists>bc' r. BuildTarball B H bc = (bc', Inr r)"
proof -
  obtain tar where w: "WriteTar B (BuildSourceDateEpoch (bc_o bc)) (bc_fs bc) = (tar, None)"
    using assms(3) by (cases "WriteTar B (BuildSourceDateEpoch (bc_o bc)) (bc_fs bc)") simp
  show ?thesis
    using assms(1,2,4,5,6) w by (cases "TarballPath (bc_o bc) = []") (simp_all add: BuildTarball_def Let_def)
qed



end
